theory Spec2Isabelle
  imports
    Complex_Main
    "HOL-Library.Finite_Map"
    "HOL-Library.Char_ord"
    "HOL-Library.List_Lexorder"
    "HOL-Library.Sublist"
    "HOL-Library.Log_Nat"
    "HOL-Library.Signed_Division"
    "HOL-Library.Word"
begin

section \<open>Shared Go notions\<close>

text \<open>
  A Go \<open>error\<close> value is either created from a message (\<open>errors.New\<close>, or
  \<open>fmt.Errorf\<close> without \<open>%w\<close>) or wraps another error behind a prefix
  (\<open>fmt.Errorf("prefix: %w", err)\<close>). \<open>Error_text\<close> is the \<open>Error()\<close> method.
  Functions that return \<open>(value, error)\<close> in Go return the same pair here, with
  \<open>None\<close> for a \<open>nil\<close> pointer and for a \<open>nil\<close> error.
\<close>

datatype error = errors_New string | Wrap string error

fun Error_text :: "error \<Rightarrow> string" where
  "Error_text (errors_New msg) = msg"
| "Error_text (Wrap pre e) = pre @ Error_text e"

text \<open>
  A \<open>context.Context\<close> as far as this package can observe it: the package only passes it
  on to the callbacks and to the HTTP transport.
\<close>

datatype ctx = Background | Canceled | DeadlineExceeded

text \<open>
  A \<open>time.Time\<close> is an instant, in nanoseconds since the Unix epoch (its location
  and its monotonic clock reading, which do not change the instant, are left out); a
  \<open>time.Duration\<close> is a signed 64-bit count of nanoseconds, kept as the integer it
  denotes (the one operation that makes one, \<open>time_Sub\<close>, saturates). An \<open>int64\<close>
  field is a 64-bit word, read as a signed number by \<open>sint\<close>. A slice is a list:
  the \<open>nil\<close> slice and the empty slice are both \<open>[]\<close>.
\<close>

type_synonym instant = int
type_synonym Duration = int
type_synonym int64 = "64 word"

text \<open>
  A Go \<open>map[string]string\<close>: \<open>None\<close> is the \<open>nil\<close> map, \<open>Some m\<close> an allocated
  map with finitely many entries.
\<close>

type_synonym string_map = "(string, string) fmap option"

section \<open>Response types\<close>

type_synonym HealthStatus = string

definition HealthStatusHealthy :: HealthStatus where
  "HealthStatusHealthy = ''healthy''"


record HealthResponse =
  Status :: HealthStatus
  Timestamp :: instant

record LivenessResponse =
  Alive :: bool
  Timestamp :: instant

record ReadinessResponse =
  Ready :: bool
  Timestamp :: instant
  Checks :: string_map

record Dependency =
  Name :: string
  Status :: string
  Version :: string

record StatusResponse =
  ServiceName :: string
  Version :: string
  GitCommit :: string
  BuildTime :: "instant option"
  StartTime :: instant
  UptimeSeconds :: int64
  Environment :: string
  Hostname :: string
  Dependencies :: "Dependency list"

section \<open>The default backend\<close>

record BaseServer =
  ServiceName :: string
  Version :: string
  GitCommit :: string
  BuildTime :: "instant option"
  StartTime :: instant
  Environment :: string
  Hostname :: string
  CheckFunc :: "(ctx \<Rightarrow> string_map) option"
  MetricsFunc :: "(ctx \<Rightarrow> string \<times> error option) option"
  Dependencies :: "Dependency list"

text \<open>
  Every method reads the clock once (\<open>time.Now()\<close>); the reading is the argument \<open>now\<close>.
\<close>

definition GetHealth :: "BaseServer \<Rightarrow> ctx \<Rightarrow> instant \<Rightarrow> HealthResponse option \<times> error option" where
  "GetHealth s c now =
     (Some \<lparr>HealthResponse.Status = HealthStatusHealthy, Timestamp = now\<rparr>, None)"

definition GetLiveness :: "BaseServer \<Rightarrow> ctx \<Rightarrow> instant \<Rightarrow> LivenessResponse option \<times> error option" where
  "GetLiveness s c now = (Some \<lparr>Alive = True, Timestamp = now\<rparr>, None)"

text \<open>
  The loop of \<open>GetReadiness\<close> over the statuses of the map, in the order in which
  \<open>range\<close> visits them: the first status that is none of the four accepted strings
  sets \<open>ready\<close> to false and leaves the loop.
\<close>

fun range_statuses :: "string list \<Rightarrow> bool \<Rightarrow> bool" where
  "range_statuses [] ready = ready"
| "range_statuses (status # rest) ready =
     (if status \<noteq> ''connected'' \<and> status \<noteq> ''available'' \<and> status \<noteq> ''reachable''
         \<and> status \<noteq> ''healthy''
      then False
      else range_statuses rest ready)"

text \<open>
  Go leaves the order of \<open>range\<close> over a map open. The order the runtime picks is the
  argument \<open>iter\<close>; \<open>range_order kvs m\<close> says that \<open>kvs\<close> lists every entry of \<open>m\<close>
  once. Ranging over the \<open>nil\<close> map runs the body zero times.
\<close>

definition range_order :: "(string \<times> string) list \<Rightarrow> (string, string) fmap \<Rightarrow> bool" where
  "range_order kvs m \<longleftrightarrow> distinct (map fst kvs) \<and> fmap_of_list kvs = m"

definition GetReadiness ::
  "BaseServer \<Rightarrow> ctx \<Rightarrow> instant \<Rightarrow> ((string, string) fmap \<Rightarrow> (string \<times> string) list)
     \<Rightarrow> ReadinessResponse option \<times> error option" where
  "GetReadiness s c now iter =
     (let checks = Some fmempty;
          ready = True;
          (checks, ready) =
            (case CheckFunc s of
               None \<Rightarrow> (checks, ready)
             | Some f \<Rightarrow>
                 (let checks = f c
                  in (checks,
                      (case checks of
                         None \<Rightarrow> ready
                       | Some m \<Rightarrow> range_statuses (map snd (iter m)) ready))))
      in (Some \<lparr>Ready = ready, Timestamp = now, Checks = checks\<rparr>, None))"

subsection \<open>Uptime: durations and float64\<close>

text \<open>
  \<open>time.Since(t)\<close> is \<open>time.Now().Sub(t)\<close>: the difference of the two instants as a
  \<open>Duration\<close>, which is the largest or the smallest \<open>Duration\<close> when the difference
  does not fit 64 bits.
\<close>

definition minDuration :: Duration where
  "minDuration = - (2 ^ 63)"

definition maxDuration :: Duration where
  "maxDuration = 2 ^ 63 - 1"

definition Second :: Duration where
  "Second = 1000000000"

definition time_Sub :: "instant \<Rightarrow> instant \<Rightarrow> Duration" where
  "time_Sub t u =
     (let d = t - u
      in if d < minDuration then minDuration
         else if maxDuration < d then maxDuration
         else d)"

definition time_Since :: "instant \<Rightarrow> instant \<Rightarrow> Duration" where
  "time_Since now t = time_Sub now t"

text \<open>
  A \<open>float64\<close> value is the rational it denotes. Every float64 operation is the exact
  operation followed by \<open>float64_round\<close>: rounding to the nearest number with a 53-bit
  significand, ties to the even significand. \<open>float64_exponent x\<close> is the \<open>e\<close> with
  \<open>2^e \<le> x < 2^(e+1)\<close>, for positive \<open>x\<close>. The exponent range of float64 is left
  out: the magnitudes that occur here lie between \<open>10^-9\<close> and \<open>10^10\<close>.
\<close>

definition pow2 :: "int \<Rightarrow> rat" where
  "pow2 e = (if 0 \<le> e then 2 ^ nat e else 1 / 2 ^ nat (- e))"

definition round_half_even :: "rat \<Rightarrow> int" where
  "round_half_even y =
     (let f = \<lfloor>y\<rfloor>; r = y - of_int f
      in if r < 1 / 2 then f
         else if 1 / 2 < r then f + 1
         else if even f then f else f + 1)"

definition float64_exponent :: "rat \<Rightarrow> int" where
  "float64_exponent x =
     (let (p, q) = quotient_of x; e0 = bitlen p - bitlen q
      in if pow2 e0 \<le> x then e0 else e0 - 1)"

definition float64_round :: "rat \<Rightarrow> rat" where
  "float64_round x =
     (if x = 0 then 0
      else let e = float64_exponent \<bar>x\<bar> - 52
           in sgn x * of_int (round_half_even (\<bar>x\<bar> / pow2 e)) * pow2 e)"

definition float64_of_int :: "int \<Rightarrow> rat" where
  "float64_of_int i = float64_round (of_int i)"

definition float64_add :: "rat \<Rightarrow> rat \<Rightarrow> rat" where
  "float64_add a b = float64_round (a + b)"

definition float64_div :: "rat \<Rightarrow> rat \<Rightarrow> rat" where
  "float64_div a b = float64_round (a / b)"

text \<open>
  \<open>Duration.Seconds\<close> of the Go library: Go's \<open>/\<close> and \<open>%\<close> on integers truncate
  towards zero (\<open>sdiv\<close>, \<open>smod\<close>).
  \<^verbatim>\<open>
  sec := d / Second
  nsec := d % Second
  return float64(sec) + float64(nsec)/1e9
  \<close>
\<close>

definition Duration_Seconds :: "Duration \<Rightarrow> rat" where
  "Duration_Seconds d =
     (let sec = d sdiv Second;
          nsec = d smod Second
      in float64_add (float64_of_int sec) (float64_div (float64_of_int nsec) (float64_round 1000000000)))"

text \<open>
  The conversion \<open>int64(f)\<close> discards the fraction. (Go leaves the result open when
  the truncated value does not fit 64 bits; no \<open>Duration\<close> has that many seconds.)
\<close>

definition int64_of_float64 :: "rat \<Rightarrow> int64" where
  "int64_of_float64 f = word_of_int (if 0 \<le> f then \<lfloor>f\<rfloor> else \<lceil>f\<rceil>)"

definition GetStatus :: "BaseServer \<Rightarrow> ctx \<Rightarrow> instant \<Rightarrow> StatusResponse option \<times> error option" where
  "GetStatus s c now =
     (let uptime = Duration_Seconds (time_Since now (BaseServer.StartTime s))
      in (Some \<lparr>StatusResponse.ServiceName = BaseServer.ServiceName s,
                Version = BaseServer.Version s,
                GitCommit = BaseServer.GitCommit s,
                BuildTime = BaseServer.BuildTime s,
                StartTime = BaseServer.StartTime s,
                UptimeSeconds = int64_of_float64 uptime,
                Environment = BaseServer.Environment s,
                Hostname = BaseServer.Hostname s,
                Dependencies = BaseServer.Dependencies s\<rparr>, None))"

subsection \<open>Metrics\<close>

definition defaultMetrics :: string where
  \<open>defaultMetrics =
     ''# HELP http_requests_total Total number of HTTP requests\<newline>'' @
     ''# TYPE http_requests_total counter\<newline>'' @
     ''http_requests_total{method="GET",status="200"} 0\<newline>'' @
     ''# HELP http_request_duration_seconds HTTP request latency\<newline>'' @
     ''# TYPE http_request_duration_seconds histogram\<newline>'' @
     ''http_request_duration_seconds_bucket{le="0.005"} 0\<newline>'' @
     ''http_request_duration_seconds_bucket{le="0.01"} 0\<newline>'' @
     ''http_request_duration_seconds_bucket{le="0.025"} 0\<newline>'' @
     ''http_request_duration_seconds_sum 0\<newline>'' @
     ''http_request_duration_seconds_count 0\<newline>''\<close>

definition GetMetrics :: "BaseServer \<Rightarrow> ctx \<Rightarrow> string \<times> error option" where
  "GetMetrics s c =
     (case MetricsFunc s of
        Some f \<Rightarrow> f c
      | None \<Rightarrow> (defaultMetrics, None))"

section \<open>The JSON wire form\<close>

text \<open>
  The wire form is modelled as the JSON document that \<open>encoding/json\<close> writes, not as
  its text. Strings are text that JSON carries unchanged, and a timestamp is kept as the
  instant that its RFC 3339 string denotes (\<open>JTime\<close>): the serialisation library is an
  external collaborator of this package, which contributes the field names, their order
  and the \<open>omitempty\<close> options of the struct tags.
\<close>

datatype json =
    JNull
  | JBool bool
  | JNumber int
  | JString string
  | JTime instant
  | JArray "json list"
  | JObject "(string \<times> json) list"

text \<open>A field tagged \<open>omitempty\<close> is left out when it is the empty string.\<close>

definition omitempty_string :: "string \<Rightarrow> string \<Rightarrow> (string \<times> json) list" where
  "omitempty_string name v = (if v = [] then [] else [(name, JString v)])"


definition encode_LivenessResponse :: "LivenessResponse \<Rightarrow> json" where
  "encode_LivenessResponse r =
     JObject [(''alive'', JBool (Alive r)),
              (''timestamp'', JTime (LivenessResponse.Timestamp r))]"

text \<open>A map is written with its keys sorted; the \<open>nil\<close> map is written as \<open>null\<close>.\<close>

definition encode_string_map :: "string_map \<Rightarrow> json" where
  "encode_string_map cm =
     (case cm of
        None \<Rightarrow> JNull
      | Some m \<Rightarrow> JObject (map (\<lambda>(k, v). (k, JString v)) (sorted_list_of_fmap m)))"

definition encode_ReadinessResponse :: "ReadinessResponse \<Rightarrow> json" where
  "encode_ReadinessResponse r =
     JObject [(''ready'', JBool (Ready r)),
              (''timestamp'', JTime (ReadinessResponse.Timestamp r)),
              (''checks'', encode_string_map (Checks r))]"

definition encode_Dependency :: "Dependency \<Rightarrow> json" where
  "encode_Dependency d =
     JObject ([(''name'', JString (Name d)),
               (''status'', JString (Dependency.Status d))]
              @ omitempty_string ''version'' (Dependency.Version d))"

definition encode_StatusResponse :: "StatusResponse \<Rightarrow> json" where
  "encode_StatusResponse r =
     JObject ([(''service_name'', JString (StatusResponse.ServiceName r)),
               (''version'', JString (StatusResponse.Version r))]
              @ omitempty_string ''git_commit'' (StatusResponse.GitCommit r)
              @ (case StatusResponse.BuildTime r of
                   None \<Rightarrow> []
                 | Some t \<Rightarrow> [(''build_time'', JTime t)])
              @ [(''start_time'', JTime (StatusResponse.StartTime r)),
                 (''uptime_seconds'', JNumber (sint (UptimeSeconds r))),
                 (''environment'', JString (StatusResponse.Environment r))]
              @ omitempty_string ''hostname'' (StatusResponse.Hostname r)
              @ (if StatusResponse.Dependencies r = [] then []
                 else [(''dependencies'',
                        JArray (map encode_Dependency (StatusResponse.Dependencies r)))]))"

subsection \<open>Decoding\<close>























section \<open>The HTTP handler\<close>

text \<open>
  The \<open>Server\<close> interface: what a backend answers to each of the five calls. A Go
  implementation is free to return any pair of a pointer and an error.
\<close>

record Server =
  Server_GetHealth :: "ctx \<Rightarrow> HealthResponse option \<times> error option"
  Server_GetLiveness :: "ctx \<Rightarrow> LivenessResponse option \<times> error option"
  Server_GetReadiness :: "ctx \<Rightarrow> ReadinessResponse option \<times> error option"
  Server_GetStatus :: "ctx \<Rightarrow> StatusResponse option \<times> error option"
  Server_GetMetrics :: "ctx \<Rightarrow> string \<times> error option"

text \<open>
  A \<open>BaseServer\<close> as a \<open>Server\<close>, at clock reading \<open>now\<close> and with the runtime's
  map iteration order \<open>iter\<close>.
\<close>

definition BaseServer_Server ::
  "BaseServer \<Rightarrow> instant \<Rightarrow> ((string, string) fmap \<Rightarrow> (string \<times> string) list) \<Rightarrow> Server" where
  "BaseServer_Server s now iter =
     \<lparr>Server_GetHealth = (\<lambda>c. GetHealth s c now),
      Server_GetLiveness = (\<lambda>c. GetLiveness s c now),
      Server_GetReadiness = (\<lambda>c. GetReadiness s c now iter),
      Server_GetStatus = (\<lambda>c. GetStatus s c now),
      Server_GetMetrics = (\<lambda>c. GetMetrics s c)\<rparr>"

record HTTPHandler =
  server :: Server

definition NewHTTPHandler :: "Server \<Rightarrow> HTTPHandler" where
  "NewHTTPHandler srv = \<lparr>server = srv\<rparr>"

record Request =
  Context :: ctx

text \<open>
  An \<open>http.ResponseWriter\<close>: the header map, whether the status line has gone out, and
  then the status code and the headers that went out with it, and what was written to
  the body. The first \<open>WriteHeader\<close> sends the status code with the headers of that
  moment; a later one changes nothing; a \<open>Write\<close> before any \<open>WriteHeader\<close> sends 200.
\<close>

datatype chunk = JSON_line json | Text string

record ResponseWriter =
  Header :: "string \<rightharpoonup> string"
  wroteHeader :: bool
  Code :: int
  sentHeader :: "string \<rightharpoonup> string"
  Body :: "chunk list"

definition NewRecorder :: ResponseWriter where
  "NewRecorder = \<lparr>Header = Map.empty, wroteHeader = False, Code = 200,
                   sentHeader = Map.empty, Body = []\<rparr>"

definition Header_Set :: "string \<Rightarrow> string \<Rightarrow> ResponseWriter \<Rightarrow> ResponseWriter" where
  "Header_Set k v w = w\<lparr>Header := (Header w)(k \<mapsto> v)\<rparr>"

definition Header_Del :: "string \<Rightarrow> ResponseWriter \<Rightarrow> ResponseWriter" where
  "Header_Del k w = w\<lparr>Header := (Header w)(k := None)\<rparr>"

definition WriteHeader :: "int \<Rightarrow> ResponseWriter \<Rightarrow> ResponseWriter" where
  "WriteHeader code w =
     (if wroteHeader w then w
      else w\<lparr>wroteHeader := True, Code := code, sentHeader := Header w\<rparr>)"

definition Write :: "chunk \<Rightarrow> ResponseWriter \<Rightarrow> ResponseWriter" where
  "Write b w = (let w' = WriteHeader 200 w in w'\<lparr>Body := Body w' @ [b]\<rparr>)"

definition StatusOK :: int where
  "StatusOK = 200"

definition StatusInternalServerError :: int where
  "StatusInternalServerError = 500"

definition StatusServiceUnavailable :: int where
  "StatusServiceUnavailable = 503"

text \<open>\<open>http.Error\<close> of the Go library.\<close>

definition http_Error :: "ResponseWriter \<Rightarrow> string \<Rightarrow> int \<Rightarrow> ResponseWriter" where
  "http_Error w msg code =
     (let w = Header_Del ''Content-Length'' w;
          w = Header_Set ''Content-Type'' ''text/plain; charset=utf-8'' w;
          w = Header_Set ''X-Content-Type-Options'' ''nosniff'' w;
          w = WriteHeader code w
      in Write (Text (msg @ ''\<newline>'')) w)"

text \<open>
  \<open>json.NewEncoder(w).Encode(v)\<close>: the argument is the outcome of marshalling \<open>v\<close>.
  A failure writes nothing and is returned; a document is written on a line of its own.
\<close>

definition Encode :: "ResponseWriter \<Rightarrow> error + json \<Rightarrow> ResponseWriter \<times> error option" where
  "Encode w v =
     (case v of
        Inl e \<Rightarrow> (w, Some e)
      | Inr j \<Rightarrow> (Write (JSON_line j) w, None))"

definition writeJSON :: "ResponseWriter \<Rightarrow> int \<Rightarrow> error + json \<Rightarrow> ResponseWriter" where
  "writeJSON w status v =
     (let w = Header_Set ''Content-Type'' ''application/json'' w;
          w = WriteHeader status w;
          (w, err) = Encode w v
      in case err of
           Some e \<Rightarrow> http_Error w (Error_text e) StatusInternalServerError
         | None \<Rightarrow> w)"

definition writeError :: "ResponseWriter \<Rightarrow> int \<Rightarrow> error \<Rightarrow> ResponseWriter" where
  "writeError w status err =
     (let w = Header_Set ''Content-Type'' ''application/json'' w;
          w = WriteHeader status w
      in fst (Encode w (Inr (JObject [(''error'', JString (Error_text err))]))))"


definition handleGetLiveness :: "HTTPHandler \<Rightarrow> ResponseWriter \<Rightarrow> Request \<Rightarrow> ResponseWriter option" where
  "handleGetLiveness h w r =
     (let (resp, err) = Server_GetLiveness (server h) (Context r)
      in case err of
           Some e \<Rightarrow> Some (writeError w StatusInternalServerError e)
         | None \<Rightarrow>
             (case resp of
                None \<Rightarrow> None
              | Some resp \<Rightarrow>
                  (let status = StatusOK;
                       status = (if \<not> Alive resp then StatusServiceUnavailable else status)
                   in Some (writeJSON w status (Inr (encode_LivenessResponse resp))))))"

definition handleGetReadiness :: "HTTPHandler \<Rightarrow> ResponseWriter \<Rightarrow> Request \<Rightarrow> ResponseWriter option" where
  "handleGetReadiness h w r =
     (let (resp, err) = Server_GetReadiness (server h) (Context r)
      in case err of
           Some e \<Rightarrow> Some (writeError w StatusInternalServerError e)
         | None \<Rightarrow>
             (case resp of
                None \<Rightarrow> None
              | Some resp \<Rightarrow>
                  (let status = StatusOK;
                       status = (if \<not> Ready resp then StatusServiceUnavailable else status)
                   in Some (writeJSON w status (Inr (encode_ReadinessResponse resp))))))"

text \<open>
  \<open>handleGetStatus\<close> hands the pointer to the encoder without reading through it; a
  \<open>nil\<close> pointer is written as \<open>null\<close>.
\<close>

definition handleGetStatus :: "HTTPHandler \<Rightarrow> ResponseWriter \<Rightarrow> Request \<Rightarrow> ResponseWriter option" where
  "handleGetStatus h w r =
     (let (resp, err) = Server_GetStatus (server h) (Context r)
      in case err of
           Some e \<Rightarrow> Some (writeError w StatusInternalServerError e)
         | None \<Rightarrow>
             Some (writeJSON w StatusOK
                     (Inr (case resp of None \<Rightarrow> JNull | Some resp \<Rightarrow> encode_StatusResponse resp))))"

definition handleGetMetrics :: "HTTPHandler \<Rightarrow> ResponseWriter \<Rightarrow> Request \<Rightarrow> ResponseWriter option" where
  "handleGetMetrics h w r =
     (let (metrics, err) = Server_GetMetrics (server h) (Context r)
      in case err of
           Some e \<Rightarrow> Some (writeError w StatusInternalServerError e)
         | None \<Rightarrow>
             (let w = Header_Set ''Content-Type'' ''text/plain; version=0.0.4'' w;
                  w = WriteHeader StatusOK w
              in Some (Write (Text metrics) w)))"

section \<open>The HTTP client\<close>

text \<open>
  The parts of the Go library that the client calls are taken as they are documented:
  \<open>url.Parse\<close> gives a URL or an error, \<open>URL.String\<close> the text of a URL, and
  \<open>http.Client.Do\<close> a response or an error. A response carries its status code and
  its body, a stream: the text that can be read from it, and the error that ends the
  reading if one does.
\<close>

record http_Client =
  Timeout :: Duration

record http_Request =
  Method :: string
  URL :: string
  ReqHeader :: "string \<rightharpoonup> string"
  ReqContext :: ctx

type_synonym stream = "string \<times> error option"

record Response =
  StatusCode :: int
  Body :: stream

record 'u stdlib =
  url_Parse :: "string \<Rightarrow> error + 'u"
  url_String :: "'u \<Rightarrow> string"
  Do :: "http_Client \<Rightarrow> http_Request \<Rightarrow> error + Response"

record client =
  baseURL :: string
  httpClient :: "http_Client option"

text \<open>
  A \<open>ClientOption\<close> is a function on the client under construction. The package makes
  two kinds; the \<open>nil\<close> function is a value of the type as well. \<open>WithTimeout\<close>
  writes through the \<open>httpClient\<close> pointer and panics when it is \<open>nil\<close>; calling
  the \<open>nil\<close> option panics. A panic is the result \<open>None\<close>. (\<open>WithHTTPClient\<close> keeps
  the caller's pointer, so a later \<open>WithTimeout\<close> also changes the caller's
  \<open>http.Client\<close>; the model follows the client only.)
\<close>

datatype ClientOption =
    WithHTTPClient "http_Client option"
  | WithTimeout Duration
  | nil_ClientOption

fun apply_option :: "ClientOption \<Rightarrow> client \<Rightarrow> client option" where
  "apply_option (WithHTTPClient hc) c = Some (c\<lparr>httpClient := hc\<rparr>)"
| "apply_option (WithTimeout timeout) c =
     (case httpClient c of
        None \<Rightarrow> None
      | Some hc \<Rightarrow> Some (c\<lparr>httpClient := Some (hc\<lparr>Timeout := timeout\<rparr>)\<rparr>))"
| "apply_option nil_ClientOption c = None"

fun apply_options :: "ClientOption list \<Rightarrow> client \<Rightarrow> client option" where
  "apply_options [] c = Some c"
| "apply_options (opt # opts) c =
     (case apply_option opt c of
        None \<Rightarrow> None
      | Some c' \<Rightarrow> apply_options opts c')"

definition NewClient ::
  "'u stdlib \<Rightarrow> string \<Rightarrow> ClientOption list \<Rightarrow> (client option \<times> error option) option" where
  "NewClient lib base opts =
     (case url_Parse lib base of
        Inl err \<Rightarrow> Some (None, Some (Wrap ''invalid base URL: '' err))
      | Inr u \<Rightarrow>
          (let c = \<lparr>baseURL = url_String lib u,
                    httpClient = Some \<lparr>Timeout = 30 * Second\<rparr>\<rparr>
           in case apply_options opts c of
                None \<Rightarrow> None
              | Some c \<Rightarrow> Some (Some c, None)))"

text \<open>
  \<open>http.NewRequestWithContext\<close> with a method that is valid and no body: it fails
  when the URL does not parse.
\<close>

definition NewRequestWithContext ::
  "'u stdlib \<Rightarrow> ctx \<Rightarrow> string \<Rightarrow> string \<Rightarrow> error + http_Request" where
  "NewRequestWithContext lib cx method url =
     (case url_Parse lib url of
        Inl err \<Rightarrow> Inl err
      | Inr u \<Rightarrow> Inr \<lparr>Method = method, URL = url, ReqHeader = Map.empty, ReqContext = cx\<rparr>)"

definition MethodGet :: string where
  "MethodGet = ''GET''"

text \<open>Decimal text of an integer, as \<open>%d\<close> prints it.\<close>

fun digits :: "nat \<Rightarrow> string" where
  "digits n =
     (if n < 10 then [char_of (48 + n)]
      else digits (n div 10) @ [char_of (48 + n mod 10)])"

declare digits.simps [simp del]

definition Itoa :: "int \<Rightarrow> string" where
  "Itoa i = (if i < 0 then ''-'' @ digits (nat (- i)) else digits (nat i))"

definition io_ReadAll :: "stream \<Rightarrow> string \<times> error option" where
  "io_ReadAll b = b"

text \<open>
  Calling \<open>Do\<close> through a \<open>nil\<close> \<open>httpClient\<close> panics (\<open>None\<close>).
\<close>

definition doRequest ::
  "'u stdlib \<Rightarrow> client \<Rightarrow> ctx \<Rightarrow> string \<Rightarrow> string \<Rightarrow> (Response option \<times> error option) option" where
  "doRequest lib c cx method path =
     (let reqURL = baseURL c @ path
      in case NewRequestWithContext lib cx method reqURL of
           Inl err \<Rightarrow> Some (None, Some (Wrap ''creating request: '' err))
         | Inr req \<Rightarrow>
             (let req = req\<lparr>ReqHeader := (ReqHeader req)(''Accept'' \<mapsto> ''application/json'')\<rparr>
              in case httpClient c of
                   None \<Rightarrow> None
                 | Some hc \<Rightarrow>
                     (case Do lib hc req of
                        Inl err \<Rightarrow> Some (None, Some (Wrap ''executing request: '' err))
                      | Inr resp \<Rightarrow> Some (Some resp, None))))"

text \<open>
  The decoder \<open>dec\<close> stands for \<open>json.NewDecoder(resp.Body).Decode\<close> into the result
  type: it reads the body stream and gives the decoded value or an error.
\<close>

definition client_GetHealth ::
  "'u stdlib \<Rightarrow> (stream \<Rightarrow> error + HealthResponse) \<Rightarrow> client \<Rightarrow> ctx
     \<Rightarrow> (HealthResponse option \<times> error option) option" where
  "client_GetHealth lib dec c cx =
     (case doRequest lib c cx MethodGet ''/health'' of
        None \<Rightarrow> None
      | Some (_, Some err) \<Rightarrow> Some (None, Some err)
      | Some (None, None) \<Rightarrow> None
      | Some (Some resp, None) \<Rightarrow>
          (if StatusCode resp \<noteq> StatusOK \<and> StatusCode resp \<noteq> StatusServiceUnavailable then
             (let (body, _) = io_ReadAll (Response.Body resp)
              in Some (None, Some (errors_New
                   (''unexpected status code '' @ Itoa (StatusCode resp) @ '': '' @ body))))
           else
             (case dec (Response.Body resp) of
                Inl err \<Rightarrow> Some (None, Some (Wrap ''decoding response: '' err))
              | Inr healthResp \<Rightarrow> Some (Some healthResp, None))))"

definition client_GetLiveness ::
  "'u stdlib \<Rightarrow> (stream \<Rightarrow> error + LivenessResponse) \<Rightarrow> client \<Rightarrow> ctx
     \<Rightarrow> (LivenessResponse option \<times> error option) option" where
  "client_GetLiveness lib dec c cx =
     (case doRequest lib c cx MethodGet ''/health/live'' of
        None \<Rightarrow> None
      | Some (_, Some err) \<Rightarrow> Some (None, Some err)
      | Some (None, None) \<Rightarrow> None
      | Some (Some resp, None) \<Rightarrow>
          (if StatusCode resp \<noteq> StatusOK \<and> StatusCode resp \<noteq> StatusServiceUnavailable then
             (let (body, _) = io_ReadAll (Response.Body resp)
              in Some (None, Some (errors_New
                   (''unexpected status code '' @ Itoa (StatusCode resp) @ '': '' @ body))))
           else
             (case dec (Response.Body resp) of
                Inl err \<Rightarrow> Some (None, Some (Wrap ''decoding response: '' err))
              | Inr livenessResp \<Rightarrow> Some (Some livenessResp, None))))"

definition client_GetReadiness ::
  "'u stdlib \<Rightarrow> (stream \<Rightarrow> error + ReadinessResponse) \<Rightarrow> client \<Rightarrow> ctx
     \<Rightarrow> (ReadinessResponse option \<times> error option) option" where
  "client_GetReadiness lib dec c cx =
     (case doRequest lib c cx MethodGet ''/health/ready'' of
        None \<Rightarrow> None
      | Some (_, Some err) \<Rightarrow> Some (None, Some err)
      | Some (None, None) \<Rightarrow> None
      | Some (Some resp, None) \<Rightarrow>
          (if StatusCode resp \<noteq> StatusOK \<and> StatusCode resp \<noteq> StatusServiceUnavailable then
             (let (body, _) = io_ReadAll (Response.Body resp)
              in Some (None, Some (errors_New
                   (''unexpected status code '' @ Itoa (StatusCode resp) @ '': '' @ body))))
           else
             (case dec (Response.Body resp) of
                Inl err \<Rightarrow> Some (None, Some (Wrap ''decoding response: '' err))
              | Inr readinessResp \<Rightarrow> Some (Some readinessResp, None))))"

definition client_GetStatus ::
  "'u stdlib \<Rightarrow> (stream \<Rightarrow> error + StatusResponse) \<Rightarrow> client \<Rightarrow> ctx
     \<Rightarrow> (StatusResponse option \<times> error option) option" where
  "client_GetStatus lib dec c cx =
     (case doRequest lib c cx MethodGet ''/status'' of
        None \<Rightarrow> None
      | Some (_, Some err) \<Rightarrow> Some (None, Some err)
      | Some (None, None) \<Rightarrow> None
      | Some (Some resp, None) \<Rightarrow>
          (if StatusCode resp \<noteq> StatusOK then
             (let (body, _) = io_ReadAll (Response.Body resp)
              in Some (None, Some (errors_New
                   (''unexpected status code '' @ Itoa (StatusCode resp) @ '': '' @ body))))
           else
             (case dec (Response.Body resp) of
                Inl err \<Rightarrow> Some (None, Some (Wrap ''decoding response: '' err))
              | Inr statusResp \<Rightarrow> Some (Some statusResp, None))))"

definition client_GetMetrics ::
  "'u stdlib \<Rightarrow> client \<Rightarrow> ctx \<Rightarrow> (string \<times> error option) option" where
  "client_GetMetrics lib c cx =
     (case NewRequestWithContext lib cx MethodGet (baseURL c @ ''/metrics'') of
        Inl err \<Rightarrow> Some ([], Some (Wrap ''creating request: '' err))
      | Inr req \<Rightarrow>
          (let req = req\<lparr>ReqHeader := (ReqHeader req)(''Accept'' \<mapsto> ''text/plain'')\<rparr>
           in case httpClient c of
                None \<Rightarrow> None
              | Some hc \<Rightarrow>
                  (case Do lib hc req of
                     Inl err \<Rightarrow> Some ([], Some (Wrap ''executing request: '' err))
                   | Inr resp \<Rightarrow>
                       (if StatusCode resp \<noteq> StatusOK then
                          (let (body, _) = io_ReadAll (Response.Body resp)
                           in Some ([], Some (errors_New
                                (''unexpected status code '' @ Itoa (StatusCode resp) @ '': '' @ body))))
                        else
                          (let (body, err) = io_ReadAll (Response.Body resp)
                           in case err of
                                Some e \<Rightarrow> Some ([], Some (Wrap ''reading response body: '' e))
                              | None \<Rightarrow> Some (body, None))))))"

section \<open>Notions used in the statements\<close>

text \<open>The outcome strings of a check mapping; the \<open>nil\<close> map has none.\<close>

definition map_values :: "string_map \<Rightarrow> string set" where
  "map_values cm = (case cm of None \<Rightarrow> {} | Some m \<Rightarrow> fmran' m)"

text \<open>
  The request that a client operation sends, and \<open>answered\<close>: the request can be
  built, the client has an \<open>http.Client\<close>, and the transport answers the request with
  the response \<open>resp\<close>.
\<close>

definition get_request :: "client \<Rightarrow> ctx \<Rightarrow> string \<Rightarrow> string \<Rightarrow> http_Request" where
  "get_request c cx path accept =
     \<lparr>Method = ''GET'', URL = baseURL c @ path, ReqHeader = [''Accept'' \<mapsto> accept],
      ReqContext = cx\<rparr>"

definition answered :: "'u stdlib \<Rightarrow> client \<Rightarrow> ctx \<Rightarrow> string \<Rightarrow> string \<Rightarrow> Response \<Rightarrow> bool" where
  "answered lib c cx path accept resp \<longleftrightarrow>
     (case url_Parse lib (baseURL c @ path) of Inl _ \<Rightarrow> False | Inr _ \<Rightarrow> True) \<and>
     (case httpClient c of
        None \<Rightarrow> False
      | Some hc \<Rightarrow> Do lib hc (get_request c cx path accept) = Inr resp)"


section \<open>Readiness of the default backend\<close>

lemma range_statuses_iff:
  "range_statuses ss True \<longleftrightarrow>
     (\<forall>x \<in> set ss. x \<in> {''connected'', ''available'', ''reachable'', ''healthy''})"
  by (induction ss) auto

lemma range_order_statuses:
  assumes "range_order kvs m"
  shows "set (map snd kvs) = {v. \<exists>k. fmlookup m k = Some v}"
proof -
  from assms have d: "distinct (map fst kvs)" and m: "m = fmap_of_list kvs"
    by (simp_all add: range_order_def)
  have "\<And>k v. fmlookup m k = Some v \<longleftrightarrow> (k, v) \<in> set kvs"
    using d by (simp add: m fmlookup_of_list)
  then show ?thesis by force
qed

lemma fmap_of_sorted_list: "fmap_of_list (sorted_list_of_fmap m) = m"
  by (rule fmap_ext) (simp add: fmlookup_of_list)

lemma distinct_sorted_list_of_fmap: "distinct (map fst (sorted_list_of_fmap m))"
  by (simp add: sorted_list_of_fmap_def comp_def sorted_list_of_fset.rep_eq)

text \<open>Some order satisfies \<open>range_order\<close> for every map: the sorted one.\<close>

lemma range_order_sorted_list: "range_order (sorted_list_of_fmap m) m"
  unfolding range_order_def
  by (simp add: fmap_of_sorted_list distinct_sorted_list_of_fmap)

lemma fmran'_fmempty: "fmran' fmempty = {}"
  by (auto simp: fmran'_def)

text \<open>
  C1. Whatever mapping the configured check provider produces, and in whatever order
  \<open>range\<close> visits it, \<open>GetReadiness\<close> returns no error and a result that carries that
  mapping (the empty map when no provider is configured), whose \<open>Ready\<close> flag is true
  exactly when every outcome string in the mapping is one of \<open>connected\<close>,
  \<open>available\<close>, \<open>reachable\<close>, \<open>healthy\<close>. So any other string, the empty string
  included, makes it false, and a mapping without entries makes it true.
\<close>

theorem GetReadiness_ready_iff:
  assumes "\<And>f m. CheckFunc s = Some f \<Longrightarrow> f c = Some m \<Longrightarrow> range_order (iter m) m"
  shows "\<exists>r. GetReadiness s c now iter = (Some r, None)
           \<and> Checks r = (case CheckFunc s of None \<Rightarrow> Some fmempty | Some f \<Rightarrow> f c)
           \<and> (Ready r \<longleftrightarrow>
                map_values (Checks r) \<subseteq> {''connected'', ''available'', ''reachable'', ''healthy''})"
proof (cases "CheckFunc s")
  case None
  then show ?thesis by (simp add: GetReadiness_def map_values_def fmran'_fmempty)
next
  case (Some f)
  show ?thesis
  proof (cases "f c")
    case None
    with Some show ?thesis by (simp add: GetReadiness_def map_values_def)
  next
    case (Some m)
    with \<open>CheckFunc s = Some f\<close> have "range_order (iter m) m" by (rule assms)
    then have "set (map snd (iter m)) = {v. \<exists>k. fmlookup m k = Some v}"
      by (rule range_order_statuses)
    also have "\<dots> = fmran' m"
      by (auto intro: fmran'I)
    finally have "set (map snd (iter m)) = fmran' m" .
    with Some \<open>CheckFunc s = Some f\<close> show ?thesis
      by (auto simp add: GetReadiness_def map_values_def range_statuses_iff)
  qed
qed

text \<open>
  At a provider that reports \<open>database\<close> connected and gives the empty string for
  \<open>cache\<close>, the result carries both entries and is not ready.
\<close>

theorem GetReadiness_ready_iff_witness:
  "\<exists>r. GetReadiness
          \<lparr>BaseServer.ServiceName = ''svc'', Version = ''1.0.0'', GitCommit = [], BuildTime = None,
            StartTime = 0, Environment = ''test'', Hostname = [],
            CheckFunc = Some (\<lambda>c. Some (fmap_of_list [(''database'', ''connected''), (''cache'', [])])),
            MetricsFunc = None, Dependencies = []\<rparr>
          Background 5 sorted_list_of_fmap = (Some r, None)
        \<and> Checks r = Some (fmap_of_list [(''database'', ''connected''), (''cache'', [])])
        \<and> \<not> Ready r"
proof -
  let ?m = "fmap_of_list [(''database'', ''connected''), (''cache'', [])]"
  let ?s = "\<lparr>BaseServer.ServiceName = ''svc'', Version = ''1.0.0'', GitCommit = [], BuildTime = None,
            StartTime = 0, Environment = ''test'', Hostname = [],
            CheckFunc = Some (\<lambda>c. Some ?m),
            MetricsFunc = None, Dependencies = []\<rparr>"
  have v: "[] \<in> map_values (Some ?m)"
    by (auto simp add: map_values_def fmlookup_of_list intro!: fmran'I [where x = "''cache''"])
  from GetReadiness_ready_iff [of ?s Background sorted_list_of_fmap 5]
  obtain r where r: "GetReadiness ?s Background 5 sorted_list_of_fmap = (Some r, None)"
    "Checks r = (case CheckFunc ?s of None \<Rightarrow> Some fmempty | Some f \<Rightarrow> f Background)"
    "Ready r \<longleftrightarrow>
       map_values (Checks r) \<subseteq> {''connected'', ''available'', ''reachable'', ''healthy''}"
    using range_order_sorted_list by blast
  from r(2) have c: "Checks r = Some ?m" by simp
  with r(3) v have "\<not> Ready r" by auto
  with r(1) c show ?thesis by blast
qed

section \<open>The handler's responses\<close>





section \<open>Metrics of the default backend\<close>

text \<open>
  C4. With no metrics provider configured, \<open>GetMetrics\<close> returns the built-in
  placeholder text and no error, and the handler of \<open>GET /metrics\<close> over the default
  backend answers a fresh writer with status 200, content type
  \<open>text/plain; version=0.0.4\<close> and that text as the body. With a provider configured,
  \<open>GetMetrics\<close> returns the pair of text and error that the provider returns.
\<close>

theorem GetMetrics_default:
  "(MetricsFunc s = None \<longrightarrow>
      GetMetrics s c = (defaultMetrics, None)
      \<and> (\<exists>w. handleGetMetrics (NewHTTPHandler (BaseServer_Server s now iter)) NewRecorder
               \<lparr>Context = c\<rparr> = Some w
             \<and> Code w = 200
             \<and> sentHeader w ''Content-Type'' = Some ''text/plain; version=0.0.4''
             \<and> ResponseWriter.Body w = [Text defaultMetrics]))
   \<and> (MetricsFunc s = Some f \<longrightarrow> GetMetrics s c = f c)"
  by (simp add: GetMetrics_def handleGetMetrics_def NewHTTPHandler_def BaseServer_Server_def
        NewRecorder_def Header_Set_def WriteHeader_def Write_def StatusOK_def)

text \<open>
  Without a provider the text has the 472 characters of the source literal and starts
  with its first line; a provider that fails has its error returned as it is.
\<close>

theorem GetMetrics_default_witness:
  "GetMetrics \<lparr>BaseServer.ServiceName = ''svc'', Version = ''1.0.0'', GitCommit = [],
       BuildTime = None, StartTime = 0, Environment = ''test'', Hostname = [],
       CheckFunc = None, MetricsFunc = None, Dependencies = []\<rparr> Background
     = (defaultMetrics, None)
   \<and> length defaultMetrics = 472
   \<and> take 56 defaultMetrics = ''# HELP http_requests_total Total number of HTTP requests''
   \<and> GetMetrics \<lparr>BaseServer.ServiceName = ''svc'', Version = ''1.0.0'', GitCommit = [],
       BuildTime = None, StartTime = 0, Environment = ''test'', Hostname = [],
       CheckFunc = None,
       MetricsFunc = Some (\<lambda>c. ([], Some (errors_New ''metrics collection failed''))),
       Dependencies = []\<rparr> Background
     = ([], Some (errors_New ''metrics collection failed''))"
  using GetMetrics_default [where s = "\<lparr>BaseServer.ServiceName = ''svc'', Version = ''1.0.0'',
       GitCommit = [], BuildTime = None, StartTime = 0, Environment = ''test'', Hostname = [],
       CheckFunc = None, MetricsFunc = None, Dependencies = []\<rparr>" and c = Background]
    GetMetrics_default [where s = "\<lparr>BaseServer.ServiceName = ''svc'', Version = ''1.0.0'',
       GitCommit = [], BuildTime = None, StartTime = 0, Environment = ''test'', Hostname = [],
       CheckFunc = None,
       MetricsFunc = Some (\<lambda>c. ([], Some (errors_New ''metrics collection failed''))),
       Dependencies = []\<rparr>" and c = Background
       and f = "\<lambda>c. ([], Some (errors_New ''metrics collection failed''))"]
  by (simp add: defaultMetrics_def)

section \<open>Errors of the default backend\<close>

text \<open>
  C6. For every context, configuration and clock reading, \<open>GetHealth\<close> returns
  \<open>healthy\<close> with the current timestamp and no error, \<open>GetLiveness\<close> returns alive
  with the current timestamp and no error, \<open>GetReadiness\<close> and \<open>GetStatus\<close> return a
  result and no error, and an error returned by \<open>GetMetrics\<close> is the error that the
  configured metrics provider returned.
\<close>

theorem default_backend_errors:
  "GetHealth s c now = (Some \<lparr>HealthResponse.Status = HealthStatusHealthy, Timestamp = now\<rparr>, None)
   \<and> GetLiveness s c now = (Some \<lparr>Alive = True, Timestamp = now\<rparr>, None)
   \<and> (\<exists>r. GetReadiness s c now iter = (Some r, None))
   \<and> (\<exists>r. GetStatus s c now = (Some r, None))
   \<and> (\<forall>e. snd (GetMetrics s c) = Some e \<longrightarrow>
          (\<exists>f. MetricsFunc s = Some f \<and> snd (f c) = Some e))"
  by (auto simp add: GetHealth_def GetLiveness_def GetReadiness_def GetStatus_def GetMetrics_def
        Let_def split: option.splits)

text \<open>A provider that fails: its error is what \<open>GetMetrics\<close> returns.\<close>

theorem default_backend_errors_witness:
  "snd (GetMetrics \<lparr>BaseServer.ServiceName = ''svc'', Version = ''1.0.0'', GitCommit = [],
       BuildTime = None, StartTime = 0, Environment = ''test'', Hostname = [],
       CheckFunc = None,
       MetricsFunc = Some (\<lambda>c. ([], Some (errors_New ''metrics collection failed''))),
       Dependencies = []\<rparr> Canceled) = Some (errors_New ''metrics collection failed'')
   \<and> (\<exists>f. MetricsFunc \<lparr>BaseServer.ServiceName = ''svc'', Version = ''1.0.0'', GitCommit = [],
       BuildTime = None, StartTime = 0, Environment = ''test'', Hostname = [],
       CheckFunc = None,
       MetricsFunc = Some (\<lambda>c. ([], Some (errors_New ''metrics collection failed''))),
       Dependencies = []\<rparr> = Some f \<and> snd (f Canceled) = Some (errors_New ''metrics collection failed''))"
proof -
  let ?s = "\<lparr>BaseServer.ServiceName = ''svc'', Version = ''1.0.0'', GitCommit = [],
       BuildTime = None, StartTime = 0, Environment = ''test'', Hostname = [],
       CheckFunc = None,
       MetricsFunc = Some (\<lambda>c. ([], Some (errors_New ''metrics collection failed''))),
       Dependencies = []\<rparr>"
  have e: "snd (GetMetrics ?s Canceled) = Some (errors_New ''metrics collection failed'')"
    by (simp add: GetMetrics_def)
  with default_backend_errors [where s = ?s and c = Canceled] show ?thesis
    by blast
qed

section \<open>The checks member without a provider\<close>

lemma sorted_list_of_fmap_empty: "sorted_list_of_fmap fmempty = []"
  by (simp add: sorted_list_of_fmap_def sorted_list_of_fset.rep_eq)

text \<open>
  C10. With no check provider configured, \<open>GetReadiness\<close> returns a result whose checks
  mapping is the allocated empty map, not \<open>nil\<close>, so its wire form has a member
  \<open>checks\<close> holding the empty object.
\<close>

theorem GetReadiness_no_provider_checks:
  "CheckFunc s = None \<longrightarrow>
     (\<exists>r. GetReadiness s c now iter = (Some r, None)
         \<and> Checks r = Some fmempty
         \<and> encode_ReadinessResponse r =
             JObject [(''ready'', JBool True), (''timestamp'', JTime now), (''checks'', JObject [])])"
  by (simp add: GetReadiness_def encode_ReadinessResponse_def encode_string_map_def
        sorted_list_of_fmap_empty)

theorem GetReadiness_no_provider_checks_witness:
  "\<exists>r. GetReadiness \<lparr>BaseServer.ServiceName = ''svc'', Version = ''1.0.0'', GitCommit = [],
       BuildTime = None, StartTime = 0, Environment = ''test'', Hostname = [],
       CheckFunc = None, MetricsFunc = None, Dependencies = []\<rparr> Background 42
       sorted_list_of_fmap = (Some r, None)
     \<and> Checks r = Some fmempty
     \<and> encode_ReadinessResponse r =
         JObject [(''ready'', JBool True), (''timestamp'', JTime 42), (''checks'', JObject [])]"
  using GetReadiness_no_provider_checks [where s = "\<lparr>BaseServer.ServiceName = ''svc'',
       Version = ''1.0.0'', GitCommit = [], BuildTime = None, StartTime = 0, Environment = ''test'',
       Hostname = [], CheckFunc = None, MetricsFunc = None, Dependencies = []\<rparr>"
       and c = Background and now = 42 and iter = sorted_list_of_fmap]
  by simp

section \<open>The client's reading of responses\<close>

lemma doRequest_answered:
  assumes "answered lib c cx path ''application/json'' resp"
  shows "doRequest lib c cx MethodGet path = Some (Some resp, None)"
  using assms
  by (auto simp add: answered_def doRequest_def NewRequestWithContext_def get_request_def
        MethodGet_def split: sum.splits option.splits)

lemma client_GetHealth_answered:
  assumes "answered lib c cx ''/health'' ''application/json'' resp"
  shows "client_GetHealth lib dec c cx =
     (if StatusCode resp = 200 \<or> StatusCode resp = 503 then
        (case dec (Response.Body resp) of
           Inr v \<Rightarrow> Some (Some v, None)
         | Inl e \<Rightarrow> Some (None, Some (Wrap ''decoding response: '' e)))
      else Some (None, Some (errors_New
             (''unexpected status code '' @ Itoa (StatusCode resp) @ '': ''
                @ fst (Response.Body resp)))))"
  by (simp add: client_GetHealth_def doRequest_answered [OF assms] StatusOK_def
        StatusServiceUnavailable_def io_ReadAll_def split_beta split: sum.splits)

lemma client_GetLiveness_answered:
  assumes "answered lib c cx ''/health/live'' ''application/json'' resp"
  shows "client_GetLiveness lib dec c cx =
     (if StatusCode resp = 200 \<or> StatusCode resp = 503 then
        (case dec (Response.Body resp) of
           Inr v \<Rightarrow> Some (Some v, None)
         | Inl e \<Rightarrow> Some (None, Some (Wrap ''decoding response: '' e)))
      else Some (None, Some (errors_New
             (''unexpected status code '' @ Itoa (StatusCode resp) @ '': ''
                @ fst (Response.Body resp)))))"
  by (simp add: client_GetLiveness_def doRequest_answered [OF assms] StatusOK_def
        StatusServiceUnavailable_def io_ReadAll_def split_beta split: sum.splits)

lemma client_GetReadiness_answered:
  assumes "answered lib c cx ''/health/ready'' ''application/json'' resp"
  shows "client_GetReadiness lib dec c cx =
     (if StatusCode resp = 200 \<or> StatusCode resp = 503 then
        (case dec (Response.Body resp) of
           Inr v \<Rightarrow> Some (Some v, None)
         | Inl e \<Rightarrow> Some (None, Some (Wrap ''decoding response: '' e)))
      else Some (None, Some (errors_New
             (''unexpected status code '' @ Itoa (StatusCode resp) @ '': ''
                @ fst (Response.Body resp)))))"
  by (simp add: client_GetReadiness_def doRequest_answered [OF assms] StatusOK_def
        StatusServiceUnavailable_def io_ReadAll_def split_beta split: sum.splits)

text \<open>
  C3. When the transport answers with a response, each of \<open>GetHealth\<close>,
  \<open>GetLiveness\<close> and \<open>GetReadiness\<close> of the client does the following. With status
  code 200 or 503 it hands the body to the JSON decoder and returns the decoded result
  and no error, or, when the decoder fails with \<open>e\<close>, the error
  \<open>decoding response: e\<close>. With any other status code it returns the error
  \<open>unexpected status code <code>: <body text></code>\<close>. The decoding error is a
  different error value with a different message.
\<close>

theorem client_accepts_200_503:
  "(answered lib c cx ''/health'' ''application/json'' resp \<longrightarrow>
      client_GetHealth lib decH c cx =
        (if StatusCode resp = 200 \<or> StatusCode resp = 503 then
           (case decH (Response.Body resp) of
              Inr v \<Rightarrow> Some (Some v, None)
            | Inl e \<Rightarrow> Some (None, Some (Wrap ''decoding response: '' e)))
         else Some (None, Some (errors_New
                (''unexpected status code '' @ Itoa (StatusCode resp) @ '': ''
                   @ fst (Response.Body resp))))))
   \<and> (answered lib c cx ''/health/live'' ''application/json'' resp \<longrightarrow>
      client_GetLiveness lib decL c cx =
        (if StatusCode resp = 200 \<or> StatusCode resp = 503 then
           (case decL (Response.Body resp) of
              Inr v \<Rightarrow> Some (Some v, None)
            | Inl e \<Rightarrow> Some (None, Some (Wrap ''decoding response: '' e)))
         else Some (None, Some (errors_New
                (''unexpected status code '' @ Itoa (StatusCode resp) @ '': ''
                   @ fst (Response.Body resp))))))
   \<and> (answered lib c cx ''/health/ready'' ''application/json'' resp \<longrightarrow>
      client_GetReadiness lib decR c cx =
        (if StatusCode resp = 200 \<or> StatusCode resp = 503 then
           (case decR (Response.Body resp) of
              Inr v \<Rightarrow> Some (Some v, None)
            | Inl e \<Rightarrow> Some (None, Some (Wrap ''decoding response: '' e)))
         else Some (None, Some (errors_New
                (''unexpected status code '' @ Itoa (StatusCode resp) @ '': ''
                   @ fst (Response.Body resp))))))
   \<and> Wrap ''decoding response: '' e \<noteq> errors_New (''unexpected status code '' @ t)
   \<and> Error_text (Wrap ''decoding response: '' e)
        \<noteq> Error_text (errors_New (''unexpected status code '' @ t))"
  using client_GetHealth_answered [of lib c cx resp decH]
    client_GetLiveness_answered [of lib c cx resp decL]
    client_GetReadiness_answered [of lib c cx resp decR]
  by simp

lemma Itoa_404: "Itoa 404 = ''404''"
  by code_simp

text \<open>
  A 503 with a decodable body is a result; a 404 with body \<open>Not Found\<close> is the status
  error; a 200 whose body does not decode is the decoding error.
\<close>

theorem client_accepts_200_503_witness:
  "client_GetHealth
      \<lparr>url_Parse = (\<lambda>s. Inr s), url_String = (\<lambda>u. u),
       Do = (\<lambda>hc req. Inr \<lparr>StatusCode = 503, Body = (''unhealthy at 9'', None)\<rparr>)\<rparr>
      (\<lambda>b. if b = (''unhealthy at 9'', None)
            then Inr \<lparr>HealthResponse.Status = ''unhealthy'', Timestamp = 9\<rparr>
            else Inl (errors_New ''invalid character''))
      \<lparr>baseURL = ''http://localhost:8080'', httpClient = Some \<lparr>Timeout = 30000000000\<rparr>\<rparr>
      Background
    = Some (Some \<lparr>HealthResponse.Status = ''unhealthy'', Timestamp = 9\<rparr>, None)
   \<and> client_GetLiveness
      \<lparr>url_Parse = (\<lambda>s. Inr s), url_String = (\<lambda>u. u),
       Do = (\<lambda>hc req. Inr \<lparr>StatusCode = 404, Body = (''Not Found'', None)\<rparr>)\<rparr>
      (\<lambda>b. Inl (errors_New ''invalid character''))
      \<lparr>baseURL = ''http://localhost:8080'', httpClient = Some \<lparr>Timeout = 30000000000\<rparr>\<rparr>
      Background
    = Some (None, Some (errors_New ''unexpected status code 404: Not Found''))
   \<and> client_GetReadiness
      \<lparr>url_Parse = (\<lambda>s. Inr s), url_String = (\<lambda>u. u),
       Do = (\<lambda>hc req. Inr \<lparr>StatusCode = 200, Body = (''not json'', None)\<rparr>)\<rparr>
      (\<lambda>b. Inl (errors_New ''invalid character''))
      \<lparr>baseURL = ''http://localhost:8080'', httpClient = Some \<lparr>Timeout = 30000000000\<rparr>\<rparr>
      Background
    = Some (None, Some (Wrap ''decoding response: '' (errors_New ''invalid character'')))"
proof -
  let ?c = "\<lparr>baseURL = ''http://localhost:8080'', httpClient = Some \<lparr>Timeout = 30000000000\<rparr>\<rparr>"
  let ?lib = "\<lambda>resp. \<lparr>url_Parse = (\<lambda>s::string. Inr s), url_String = (\<lambda>u. u),
       Do = (\<lambda>hc req. Inr resp)\<rparr>"
  have a: "answered (?lib resp) ?c Background path accept resp" for resp path accept
    by (simp add: answered_def)
  show ?thesis
    using client_accepts_200_503 [where lib = "?lib \<lparr>StatusCode = 503, Body = (''unhealthy at 9'', None)\<rparr>"
        and c = ?c and cx = Background and resp = "\<lparr>StatusCode = 503, Body = (''unhealthy at 9'', None)\<rparr>"
        and decH = "(\<lambda>b. if b = (''unhealthy at 9'', None)
            then Inr \<lparr>HealthResponse.Status = ''unhealthy'', Timestamp = 9\<rparr>
            else Inl (errors_New ''invalid character''))"]
      client_accepts_200_503 [where lib = "?lib \<lparr>StatusCode = 404, Body = (''Not Found'', None)\<rparr>"
        and c = ?c and cx = Background and resp = "\<lparr>StatusCode = 404, Body = (''Not Found'', None)\<rparr>"
        and decL = "(\<lambda>b. Inl (errors_New ''invalid character''))"]
      client_accepts_200_503 [where lib = "?lib \<lparr>StatusCode = 200, Body = (''not json'', None)\<rparr>"
        and c = ?c and cx = Background and resp = "\<lparr>StatusCode = 200, Body = (''not json'', None)\<rparr>"
        and decR = "(\<lambda>b. Inl (errors_New ''invalid character''))"]
    by (simp add: a Itoa_404)
qed

section \<open>The client's metrics call\<close>

lemma client_GetMetrics_answered:
  assumes "answered lib c cx ''/metrics'' ''text/plain'' resp"
  shows "client_GetMetrics lib c cx =
     (if StatusCode resp \<noteq> 200 then
        Some ([], Some (errors_New
          (''unexpected status code '' @ Itoa (StatusCode resp) @ '': ''
             @ fst (Response.Body resp))))
      else (case snd (Response.Body resp) of
              Some e \<Rightarrow> Some ([], Some (Wrap ''reading response body: '' e))
            | None \<Rightarrow> Some (fst (Response.Body resp), None)))"
  using assms
  by (auto simp add: answered_def client_GetMetrics_def NewRequestWithContext_def get_request_def
        MethodGet_def StatusOK_def io_ReadAll_def split_beta split: sum.splits option.splits)

text \<open>
  C8. When the transport answers \<open>GetMetrics\<close> of the client with a response: with
  status code 200 and a body that reads to its end, the result is the body text as it
  is (the empty text for an empty body) and no error; with any other status code the
  result is an error whose message is
  \<open>unexpected status code <code>: <body text>\<close>, which contains the decimal status
  code and the body text.
\<close>

theorem client_GetMetrics_only_200:
  "answered lib c cx ''/metrics'' ''text/plain'' resp \<longrightarrow>
     (StatusCode resp = 200 \<and> snd (Response.Body resp) = None \<longrightarrow>
        client_GetMetrics lib c cx = Some (fst (Response.Body resp), None))
     \<and> (StatusCode resp \<noteq> 200 \<longrightarrow>
        (\<exists>e. client_GetMetrics lib c cx = Some ([], Some e)
            \<and> Error_text e = ''unexpected status code '' @ Itoa (StatusCode resp) @ '': ''
                 @ fst (Response.Body resp)
            \<and> sublist (Itoa (StatusCode resp)) (Error_text e)
            \<and> sublist (fst (Response.Body resp)) (Error_text e)))"
proof (intro impI conjI)
  assume a: "answered lib c cx ''/metrics'' ''text/plain'' resp"
  show "client_GetMetrics lib c cx = Some (fst (Response.Body resp), None)"
    if "StatusCode resp = 200 \<and> snd (Response.Body resp) = None"
    using that by (simp add: client_GetMetrics_answered [OF a])
  show "\<exists>e. client_GetMetrics lib c cx = Some ([], Some e)
            \<and> Error_text e = ''unexpected status code '' @ Itoa (StatusCode resp) @ '': ''
                 @ fst (Response.Body resp)
            \<and> sublist (Itoa (StatusCode resp)) (Error_text e)
            \<and> sublist (fst (Response.Body resp)) (Error_text e)"
    if n: "StatusCode resp \<noteq> 200"
  proof -
    let ?e = "errors_New (''unexpected status code '' @ Itoa (StatusCode resp) @ '': ''
             @ fst (Response.Body resp))"
    have "client_GetMetrics lib c cx = Some ([], Some ?e)"
      using n by (simp add: client_GetMetrics_answered [OF a])
    moreover have "sublist (Itoa (StatusCode resp)) (Error_text ?e)"
      unfolding sublist_def by (rule exI [of _ "''unexpected status code ''"]) auto
    moreover have "sublist (fst (Response.Body resp)) (Error_text ?e)"
      unfolding sublist_def
      by (rule exI [of _ "''unexpected status code '' @ Itoa (StatusCode resp) @ '': ''"]) auto
    ultimately show ?thesis by auto
  qed
qed

text \<open>A 404 with body \<open>Not Found\<close>, and a 200 with an empty body.\<close>

theorem client_GetMetrics_only_200_witness:
  "(\<exists>e. client_GetMetrics
      \<lparr>url_Parse = (\<lambda>s. Inr s), url_String = (\<lambda>u. u),
       Do = (\<lambda>hc req. Inr \<lparr>StatusCode = 404, Body = (''Not Found'', None)\<rparr>)\<rparr>
      \<lparr>baseURL = ''http://localhost:8080'', httpClient = Some \<lparr>Timeout = 30000000000\<rparr>\<rparr>
      Background = Some ([], Some e)
      \<and> Error_text e = ''unexpected status code 404: Not Found''
      \<and> sublist ''404'' (Error_text e) \<and> sublist ''Not Found'' (Error_text e))
   \<and> client_GetMetrics
      \<lparr>url_Parse = (\<lambda>s. Inr s), url_String = (\<lambda>u. u),
       Do = (\<lambda>hc req. Inr \<lparr>StatusCode = 200, Body = ([], None)\<rparr>)\<rparr>
      \<lparr>baseURL = ''http://localhost:8080'', httpClient = Some \<lparr>Timeout = 30000000000\<rparr>\<rparr>
      Background = Some ([], None)"
proof -
  let ?c = "\<lparr>baseURL = ''http://localhost:8080'', httpClient = Some \<lparr>Timeout = 30000000000\<rparr>\<rparr>"
  let ?lib = "\<lambda>resp. \<lparr>url_Parse = (\<lambda>s::string. Inr s), url_String = (\<lambda>u. u),
       Do = (\<lambda>hc req. Inr resp)\<rparr>"
  have a: "answered (?lib resp) ?c Background path accept resp" for resp path accept
    by (simp add: answered_def)
  show ?thesis
    using client_GetMetrics_only_200 [where lib = "?lib \<lparr>StatusCode = 404, Body = (''Not Found'', None)\<rparr>"
        and c = ?c and cx = Background and resp = "\<lparr>StatusCode = 404, Body = (''Not Found'', None)\<rparr>"]
      client_GetMetrics_only_200 [where lib = "?lib \<lparr>StatusCode = 200, Body = ([], None)\<rparr>"
        and c = ?c and cx = Background and resp = "\<lparr>StatusCode = 200, Body = ([], None)\<rparr>"]
    by (simp add: a Itoa_404)
qed

section \<open>Constructing a client\<close>

lemma apply_options_append:
  "apply_options (opts @ [opt]) c =
     (case apply_options opts c of None \<Rightarrow> None | Some c' \<Rightarrow> apply_option opt c')"
  by (induction opts arbitrary: c) (auto split: option.splits)

lemma NewClient_error_iff:
  "(\<exists>e. NewClient lib base opts = Some (None, Some e)) \<longleftrightarrow> (\<exists>e. url_Parse lib base = Inl e)"
  by (auto simp add: NewClient_def split: sum.splits option.splits)

lemma NewClient_parse_error:
  "url_Parse lib base = Inl e \<Longrightarrow>
     NewClient lib base opts = Some (None, Some (Wrap ''invalid base URL: '' e))"
  by (simp add: NewClient_def)

lemma NewClient_default_timeout:
  "NewClient lib base [] = Some (Some c, None) \<Longrightarrow> httpClient c = Some \<lparr>Timeout = 30000000000\<rparr>"
  by (auto simp add: NewClient_def Second_def split: sum.splits)

lemma NewClient_WithTimeout_last:
  "NewClient lib base (opts @ [WithTimeout t]) = Some (Some c, None) \<Longrightarrow>
     map_option Timeout (httpClient c) = Some t"
  by (auto simp add: NewClient_def apply_options_append split: sum.splits option.splits)

lemma NewClient_WithHTTPClient_last:
  "NewClient lib base (opts @ [WithHTTPClient hc]) = Some (Some c, None) \<Longrightarrow> httpClient c = hc"
  by (auto simp add: NewClient_def apply_options_append split: sum.splits option.splits)

lemma doRequest_Do_cong:
  "httpClient c = Some hc \<Longrightarrow>
     doRequest lib c cx m path = doRequest (lib\<lparr>Do := \<lambda>_. Do lib hc\<rparr>) c cx m path"
  by (simp add: doRequest_def NewRequestWithContext_def Let_def split: sum.splits)

lemma calls_use_httpClient:
  assumes "httpClient c = Some hc"
  shows "client_GetHealth lib decH c cx = client_GetHealth (lib\<lparr>Do := \<lambda>_. Do lib hc\<rparr>) decH c cx"
    and "client_GetLiveness lib decL c cx = client_GetLiveness (lib\<lparr>Do := \<lambda>_. Do lib hc\<rparr>) decL c cx"
    and "client_GetReadiness lib decR c cx = client_GetReadiness (lib\<lparr>Do := \<lambda>_. Do lib hc\<rparr>) decR c cx"
    and "client_GetStatus lib decS c cx = client_GetStatus (lib\<lparr>Do := \<lambda>_. Do lib hc\<rparr>) decS c cx"
    and "client_GetMetrics lib c cx = client_GetMetrics (lib\<lparr>Do := \<lambda>_. Do lib hc\<rparr>) c cx"
  using assms
  by (simp_all add: client_GetHealth_def client_GetLiveness_def client_GetReadiness_def
        client_GetStatus_def client_GetMetrics_def doRequest_Do_cong [OF assms, symmetric]
        NewRequestWithContext_def Let_def split: sum.splits)

text \<open>
  C9. \<open>NewClient\<close> returns an error exactly when \<open>url.Parse\<close> rejects the base URL,
  and the error is \<open>invalid base URL: \<close> followed by the parser's error. A client
  made with no option has an \<open>http.Client\<close> with a timeout of 30 seconds, and each
  of its five calls hands exactly that \<open>http.Client\<close> to the transport. When the last
  option is \<open>WithTimeout t\<close> the timeout is \<open>t\<close>; when it is
  \<open>WithHTTPClient hc\<close> the client uses \<open>hc\<close>.
\<close>

theorem NewClient_construction:
  "((\<exists>e. NewClient lib base opts = Some (None, Some e)) \<longleftrightarrow> (\<exists>e. url_Parse lib base = Inl e))
   \<and> (url_Parse lib base = Inl e \<longrightarrow>
        NewClient lib base opts = Some (None, Some (Wrap ''invalid base URL: '' e)))
   \<and> (NewClient lib base [] = Some (Some c, None) \<longrightarrow>
        httpClient c = Some \<lparr>Timeout = 30000000000\<rparr>
        \<and> client_GetHealth lib decH c cx
            = client_GetHealth (lib\<lparr>Do := \<lambda>_. Do lib \<lparr>Timeout = 30000000000\<rparr>\<rparr>) decH c cx
        \<and> client_GetLiveness lib decL c cx
            = client_GetLiveness (lib\<lparr>Do := \<lambda>_. Do lib \<lparr>Timeout = 30000000000\<rparr>\<rparr>) decL c cx
        \<and> client_GetReadiness lib decR c cx
            = client_GetReadiness (lib\<lparr>Do := \<lambda>_. Do lib \<lparr>Timeout = 30000000000\<rparr>\<rparr>) decR c cx
        \<and> client_GetStatus lib decS c cx
            = client_GetStatus (lib\<lparr>Do := \<lambda>_. Do lib \<lparr>Timeout = 30000000000\<rparr>\<rparr>) decS c cx
        \<and> client_GetMetrics lib c cx
            = client_GetMetrics (lib\<lparr>Do := \<lambda>_. Do lib \<lparr>Timeout = 30000000000\<rparr>\<rparr>) c cx)
   \<and> (NewClient lib base (opts @ [WithTimeout t]) = Some (Some c', None) \<longrightarrow>
        map_option Timeout (httpClient c') = Some t)
   \<and> (NewClient lib base (opts @ [WithHTTPClient hc]) = Some (Some c'', None) \<longrightarrow>
        httpClient c'' = hc)"
  using NewClient_error_iff [of lib base opts] NewClient_parse_error [of lib base e opts]
    NewClient_default_timeout [of lib base c]
    calls_use_httpClient [of c "\<lparr>Timeout = 30000000000\<rparr>" lib]
    NewClient_WithTimeout_last [of lib base opts t c']
    NewClient_WithHTTPClient_last [of lib base opts hc c'']
  by simp

text \<open>
  With a parser that rejects \<open>://invalid\<close>: that base URL is an error, a good one
  gives the 30 second client, and \<open>WithTimeout\<close> of 5 seconds gives a 5 second client.
\<close>

theorem NewClient_construction_witness:
  "NewClient
      \<lparr>url_Parse = (\<lambda>s. if s = ''://invalid'' then Inl (errors_New ''missing protocol scheme'')
                         else Inr s),
       url_String = (\<lambda>u. u), Do = (\<lambda>hc req. Inl (errors_New ''connection refused''))\<rparr>
      ''://invalid'' []
     = Some (None, Some (Wrap ''invalid base URL: '' (errors_New ''missing protocol scheme'')))
   \<and> NewClient
      \<lparr>url_Parse = (\<lambda>s. if s = ''://invalid'' then Inl (errors_New ''missing protocol scheme'')
                         else Inr s),
       url_String = (\<lambda>u. u), Do = (\<lambda>hc req. Inl (errors_New ''connection refused''))\<rparr>
      ''http://localhost:8080'' []
     = Some (Some \<lparr>baseURL = ''http://localhost:8080'',
                   httpClient = Some \<lparr>Timeout = 30000000000\<rparr>\<rparr>, None)
   \<and> httpClient \<lparr>baseURL = ''http://localhost:8080'',
                   httpClient = Some \<lparr>Timeout = 30000000000\<rparr>\<rparr> = Some \<lparr>Timeout = 30000000000\<rparr>
   \<and> NewClient
      \<lparr>url_Parse = (\<lambda>s. if s = ''://invalid'' then Inl (errors_New ''missing protocol scheme'')
                         else Inr s),
       url_String = (\<lambda>u. u), Do = (\<lambda>hc req. Inl (errors_New ''connection refused''))\<rparr>
      ''http://localhost:8080'' ([] @ [WithTimeout 5000000000])
     = Some (Some \<lparr>baseURL = ''http://localhost:8080'',
                   httpClient = Some \<lparr>Timeout = 5000000000\<rparr>\<rparr>, None)
   \<and> map_option Timeout (httpClient \<lparr>baseURL = ''http://localhost:8080'',
                   httpClient = Some \<lparr>Timeout = 5000000000\<rparr>\<rparr>) = Some 5000000000"
proof -
  let ?lib = "\<lparr>url_Parse = (\<lambda>s. if s = ''://invalid'' then Inl (errors_New ''missing protocol scheme'')
                         else Inr s),
       url_String = (\<lambda>u. u), Do = (\<lambda>hc req. Inl (errors_New ''connection refused''))\<rparr>"
  have 1: "url_Parse ?lib ''://invalid'' = Inl (errors_New ''missing protocol scheme'')"
    by simp
  have 2: "NewClient ?lib ''http://localhost:8080'' []
     = Some (Some \<lparr>baseURL = ''http://localhost:8080'',
                   httpClient = Some \<lparr>Timeout = 30000000000\<rparr>\<rparr>, None)"
    by (simp add: NewClient_def Second_def)
  have 3: "NewClient ?lib ''http://localhost:8080'' ([] @ [WithTimeout 5000000000])
     = Some (Some \<lparr>baseURL = ''http://localhost:8080'',
                   httpClient = Some \<lparr>Timeout = 5000000000\<rparr>\<rparr>, None)"
    by (simp add: NewClient_def Second_def)
  show ?thesis
    using NewClient_construction [where lib = ?lib and base = "''://invalid''" and opts = "[]"
        and e = "errors_New ''missing protocol scheme''"]
      NewClient_construction [where lib = ?lib and base = "''http://localhost:8080''" and opts = "[]"
        and c = "\<lparr>baseURL = ''http://localhost:8080'',
                   httpClient = Some \<lparr>Timeout = 30000000000\<rparr>\<rparr>" and t = 5000000000
        and c' = "\<lparr>baseURL = ''http://localhost:8080'',
                   httpClient = Some \<lparr>Timeout = 5000000000\<rparr>\<rparr>"]
      1 2 3
    by simp
qed

section \<open>Round trip through the wire form\<close>
















text \<open>
  A status result with no commit, build time, host name or dependencies: the document
  has the five required members only, and decodes to the same result.
\<close>

lemma wire_minimal_status:
  "encode_StatusResponse
     \<lparr>StatusResponse.ServiceName = ''svc'', Version = ''1.0.0'', GitCommit = [],
      BuildTime = None, StartTime = 5, UptimeSeconds = 3600, Environment = ''test'',
      Hostname = [], Dependencies = []\<rparr>
   = JObject [(''service_name'', JString ''svc''), (''version'', JString ''1.0.0''),
              (''start_time'', JTime 5), (''uptime_seconds'', JNumber 3600),
              (''environment'', JString ''test'')]"
  by (simp add: encode_StatusResponse_def omitempty_string_def)

section \<open>Uptime\<close>

subsection \<open>Powers of two and the exponent of a float64\<close>

lemma pow2_powi: "pow2 e = 2 powi e"
  by (simp add: pow2_def power_int_def power_one_over)




lemma pow2_strict_mono: "a < b \<Longrightarrow> pow2 a < pow2 b"
  by (simp add: pow2_powi power_int_strict_increasing)


lemma pow2_nat: "pow2 (int n) = 2 ^ n"
  by (simp add: pow2_def)




subsection \<open>Rounding\<close>









text \<open>
  The rounding agrees with IEEE 754 on a known value: the float64 nearest to one tenth
  is \<open>3602879701896397 / 2^55\<close>.
\<close>

lemma float64_round_tenth: "float64_round (1 / 10) = 3602879701896397 / 2 ^ 55"
  by code_simp








subsection \<open>Seconds of a duration\<close>
















end
